theory Spec2Isabelle
  imports Complex_Main "HOL-Library.Word"
begin

section \<open>Skin tone estimation: a shallow embedding of Skin\_detection\<close>

text \<open>
  Modelling conventions.
  \<^item> numpy \<open>uint8\<close> values are \<open>8 word\<close>; Python integers are \<open>int\<close>.
  \<^item> Python and numpy floats (float64) are idealised as \<open>real\<close>: division, products and
    comparisons are exact. \<open>int(x)\<close> on a float truncates towards zero.
  \<^item> Exceptions are values of the type \<open>error\<close>; a function that can raise returns
    \<open>error + 'a\<close> with \<open>Inl\<close> for the exception.
  \<^item> Calls into libraries whose code is not part of the repository (the colour-space
    conversions of cv2, the bilateral filter, the CIE L*a*b* conversion of skimage and the
    k-means fit of sklearn) are parameters of the functions that call them.
\<close>

type_synonym uint8 = "8 word"

text \<open>
  All failures of \<open>display_skin_analysis\<close> are Python \<open>ValueError\<close>s told apart by their
  message; the first five constructors carry the names the specification gives them:
  \<open>ImageReadError\<close> is "Failed to read image", \<open>EmptyInputError\<close> is "No non-transparent
  pixels found in image", \<open>InsufficientDataError\<close> is the failure of the k-means fit,
  \<open>EmptyCenterPatchError\<close> is "No valid pixels found in center patch" and
  \<open>NoSkinPixelsError\<close> is "No skin pixels detected". \<open>IndexError\<close> and \<open>ValueError\<close> are
  the exceptions that Python and numpy raise on their own (an index out of range, a mask of
  the wrong length, an assignment of the wrong shape, \<open>int\<close> of a nan).
\<close>

datatype error =
    ImageReadError
  | EmptyInputError
  | InsufficientDataError
  | EmptyCenterPatchError
  | NoSkinPixelsError
  | IndexError
  | ValueError

subsection \<open>Colour-space conversions (cv2.cvtColor)\<close>

text \<open>
  \<open>cv2.cvtColor\<close> on a single 8-bit pixel, for the two codes the program uses. Both take
  the pixel in cv2's channel order (blue, green, red).
\<close>

record cvt =
  bgr2hsv :: "uint8 \<times> uint8 \<times> uint8 \<Rightarrow> uint8 \<times> uint8 \<times> uint8"
  bgr2ycrcb :: "uint8 \<times> uint8 \<times> uint8 \<Rightarrow> uint8 \<times> uint8 \<times> uint8"

subsection \<open>is\_likely\_skin\_color\<close>

text \<open>
  Lines 12-52. \<open>np.uint8([[[b, g, r]]])\<close> builds the pixel in cv2's order from the three
  Python integers (\<open>word_of_int\<close>: exact for channels in 0..255).
\<close>

definition is_likely_skin_color :: "cvt \<Rightarrow> int \<Rightarrow> int \<Rightarrow> int \<Rightarrow> bool" where
  "is_likely_skin_color cv r g b =
     (let rgb = (word_of_int b :: uint8, word_of_int g :: uint8, word_of_int r :: uint8);
          hsv = bgr2hsv cv rgb;
          ycrcb = bgr2ycrcb cv rgb;
          sum_rgb = real_of_int r + real_of_int g + real_of_int b
      in if sum_rgb = 0 then False
         else
           let nr = real_of_int r / sum_rgb;
               ng = real_of_int g / sum_rgb;
               nb = real_of_int b / sum_rgb;
               h = fst hsv; s = fst (snd hsv); v = snd (snd hsv);
               cr = fst (snd ycrcb); cb = snd (snd ycrcb);
               rgb_rule = (r > 95 \<and> g > 40 \<and> b > 20 \<and>
                           max r (max g b) - min r (min g b) > 15 \<and>
                           \<bar>r - g\<bar> > 15 \<and> r > g \<and> r > b);
               normalized_rule = (nr > 0.35 \<and> nb < 0.35 \<and>
                                  nr > ng \<and> ng > nb \<and>
                                  \<bar>nr - ng\<bar> < 0.35);
               hsv_rule = (h \<ge> 0 \<and> h \<le> 50 \<and>
                           s \<ge> 10 \<and> s \<le> 180 \<and>
                           v \<ge> 80);
               ycrcb_rule = (cr \<ge> 135 \<and> cr \<le> 180 \<and>
                             cb \<ge> 85 \<and> cb \<le> 135)
           in (rgb_rule \<and> normalized_rule) \<or> (hsv_rule \<and> ycrcb_rule))"


definition normalized_rule :: "int \<Rightarrow> int \<Rightarrow> int \<Rightarrow> bool" where
  "normalized_rule r g b \<longleftrightarrow>
     (let sum = real_of_int (r + g + b);
          nr = real_of_int r / sum; ng = real_of_int g / sum; nb = real_of_int b / sum
      in nr > 0.35 \<and> nb < 0.35 \<and> nr > ng \<and> ng > nb \<and> \<bar>nr - ng\<bar> < 0.35)"




subsection \<open>get\_lightness\_description\<close>

text \<open>Lines 104-119.\<close>

definition get_lightness_description :: "real \<Rightarrow> string" where
  "get_lightness_description L_value =
     (if L_value \<ge> 85 then ''Very Light''
      else if L_value \<ge> 70 then ''Light''
      else if L_value \<ge> 55 then ''Medium Light''
      else if L_value \<ge> 40 then ''Medium''
      else if L_value \<ge> 25 then ''Medium Dark''
      else if L_value \<ge> 10 then ''Dark''
      else ''Very Dark'')"

subsection \<open>numpy on lists\<close>

text \<open>
  A normalised colour is a row \<open>[r, g, b]\<close> of the array \<open>pixels\<close>; an array of shape
  \<open>(N, 3)\<close> is a list of colours. \<open>axis0 f\<close> applies a reduction to each column, as
  \<open>axis=0\<close> does, and \<open>mean3\<close> is \<open>np.mean\<close> of one row.
\<close>

type_synonym color = "real \<times> real \<times> real"

definition axis0 :: "(real list \<Rightarrow> real) \<Rightarrow> color list \<Rightarrow> color" where
  "axis0 f ps = (f (map fst ps), f (map (fst \<circ> snd) ps), f (map (snd \<circ> snd) ps))"

definition mean3 :: "color \<Rightarrow> real" where
  "mean3 c = (case c of (r, g, b) \<Rightarrow> (r + g + b) / 3)"

definition np_mean :: "real list \<Rightarrow> real" where
  "np_mean xs = sum_list xs / real (length xs)"

definition np_var :: "real list \<Rightarrow> real" where
  "np_var xs = np_mean (map (\<lambda>x. (x - np_mean xs)\<^sup>2) xs)"

text \<open>
  \<open>np.median\<close>: the middle element of the sorted values, or the mean of the two middle
  ones. It is only applied to non-empty lists (numpy gives nan on an empty one, and every
  caller below tests for emptiness first).
\<close>

definition np_median :: "real list \<Rightarrow> real" where
  "np_median xs =
     (let s = sort xs; n = length xs
      in if n mod 2 = 1 then s ! (n div 2)
         else (s ! (n div 2 - 1) + s ! (n div 2)) / 2)"

text \<open>
  \<open>np.percentile\<close> with its default linear interpolation: position \<open>q/100 * (n - 1)\<close> in
  the sorted values, interpolated between its two neighbours.
\<close>

definition np_percentile :: "real \<Rightarrow> real list \<Rightarrow> real" where
  "np_percentile q xs =
     (let s = sort xs; n = length xs;
          pos = q / 100 * real (n - 1);
          lo = nat \<lfloor>pos\<rfloor>;
          hi = min (lo + 1) (n - 1);
          gamma = pos - real lo
      in s ! lo + gamma * (s ! hi - s ! lo))"

text \<open>
  \<open>xs[mask]\<close> with a boolean mask keeps the entries whose mask bit is set and raises
  IndexError when the mask has another length; \<open>xs[idxs]\<close> with a list of indices raises
  IndexError when one of them is out of range.
\<close>

definition np_mask :: "'a list \<Rightarrow> bool list \<Rightarrow> error + 'a list" where
  "np_mask xs msk =
     (if length msk \<noteq> length xs then Inl IndexError
      else Inr (map fst (filter snd (zip xs msk))))"

definition np_take :: "'a list \<Rightarrow> nat list \<Rightarrow> error + 'a list" where
  "np_take xs idxs =
     (if list_all (\<lambda>i. i < length xs) idxs then Inr (map (nth xs) idxs)
      else Inl IndexError)"

text \<open>Python's \<open>int\<close> on a float: truncation towards zero.\<close>

definition py_int :: "real \<Rightarrow> int" where
  "py_int x = (if x \<ge> 0 then \<lfloor>x\<rfloor> else \<lceil>x\<rceil>)"

text \<open>\<open>tuple(int(x * 255) for x in median_color)\<close>, lines 73, 92 and 236.\<close>

definition rgb_of :: "color \<Rightarrow> int \<times> int \<times> int" where
  "rgb_of median_color =
     (case median_color of (r, g, b) \<Rightarrow> (py_int (r * 255), py_int (g * 255), py_int (b * 255)))"

subsection \<open>get\_dominant\_non\_dark\_cluster\<close>

text \<open>
  Lines 73-74 and 92-93: \<open>rgb\<close> is the un-normalised median colour, and
  \<open>is_likely_skin_color(*rgb[::-1])\<close> passes the reversed tuple as the positional
  arguments \<open>r, g, b\<close>: the callee's \<open>r\<close> is \<open>rgb[2]\<close> and its \<open>b\<close> is \<open>rgb[0]\<close>.
\<close>

definition median_is_skin :: "cvt \<Rightarrow> color \<Rightarrow> bool" where
  "median_is_skin cv median_color =
     (case rgb_of median_color of (rgb0, rgb1, rgb2) \<Rightarrow> is_likely_skin_color cv rgb2 rgb1 rgb0)"

text \<open>The tuple \<open>(i, score, brightness, size, median_color)\<close> appended at line 84.\<close>

record cluster =
  c_id :: nat
  c_score :: real
  c_brightness :: real
  c_size :: nat
  c_median :: color

text \<open>\<open>pixels[labels == i]\<close> for arrays of equal length.\<close>

definition cluster_pixels :: "color list \<Rightarrow> nat list \<Rightarrow> nat \<Rightarrow> color list" where
  "cluster_pixels pixels labels i = map fst (filter (\<lambda>pl. snd pl = i) (zip pixels labels))"

text \<open>
  One pass of the loop of lines 59-84 for the cluster \<open>i\<close>: \<open>None\<close> is the \<open>continue\<close> of an
  empty cluster. (\<open>mean_color\<close> is computed and never read.)
\<close>

definition cluster_entry :: "cvt \<Rightarrow> color list \<Rightarrow> nat list \<Rightarrow> nat \<Rightarrow> cluster option" where
  "cluster_entry cv pixels labels i =
     (let cps = cluster_pixels pixels labels i
      in if length cps = 0 then None
         else
           let median_color = axis0 np_median cps;
               brightness = mean3 median_color;
               color_variance = mean3 (axis0 np_var cps);
               size = length cps;
               is_skin = median_is_skin cv median_color;
               score = 0.4 * brightness +
                       0.3 * (1 - color_variance) +
                       0.3 * (real size / real (length pixels));
               score = (if is_skin then score * 1.5 else score)
           in Some \<lparr>c_id = i, c_score = score, c_brightness = brightness,
                    c_size = size, c_median = median_color\<rparr>)"

definition build_clusters :: "cvt \<Rightarrow> color list \<Rightarrow> nat list \<Rightarrow> nat \<Rightarrow> cluster list" where
  "build_clusters cv pixels labels n_clusters =
     List.map_filter (cluster_entry cv pixels labels) [0..<n_clusters]"

text \<open>
  \<open>clusters.sort(key=lambda x: -x[1])\<close>: Python's sort is stable, as is the insertion sort
  \<open>sort_key\<close>.
\<close>

definition sort_clusters :: "cluster list \<Rightarrow> cluster list" where
  "sort_clusters clusters = sort_key (\<lambda>x. - c_score x) clusters"

text \<open>The test of lines 91-93 on one entry of the sorted list.\<close>

definition meets_criteria :: "cvt \<Rightarrow> nat \<Rightarrow> cluster \<Rightarrow> bool" where
  "meets_criteria cv len_pixels c \<longleftrightarrow>
     (c_brightness c > 0.15 \<and> real (c_size c) > real len_pixels * 0.05) \<and>
     median_is_skin cv (c_median c)"

text \<open>
  Lines 54-96. With a label array of another length than \<open>pixels\<close> the mask
  \<open>pixels[labels == i]\<close> raises IndexError in the first pass of the loop, and with
  \<open>n_clusters = 0\<close> the list stays empty and \<open>clusters[0]\<close> raises the same.
\<close>

definition get_dominant_non_dark_cluster ::
  "cvt \<Rightarrow> color list \<Rightarrow> nat list \<Rightarrow> nat \<Rightarrow> error + nat" where
  "get_dominant_non_dark_cluster cv pixels labels n_clusters =
     (if length labels \<noteq> length pixels then Inl IndexError
      else
        let clusters = sort_clusters (build_clusters cv pixels labels n_clusters)
        in case find (meets_criteria cv (length pixels)) clusters of
             Some c \<Rightarrow> Inr (c_id c)
           | None \<Rightarrow> (case clusters of [] \<Rightarrow> Inl IndexError | c # _ \<Rightarrow> Inr (c_id c)))"

subsection \<open>display\_skin\_analysis\<close>

text \<open>
  A decoded image: \<open>height\<close> rows and \<open>width\<close> columns of blue, green and red, with a
  fourth (alpha) channel when the array has shape \<open>(height, width, 4)\<close>.
\<close>

record image =
  height :: nat
  width :: nat
  bgr :: "nat \<Rightarrow> nat \<Rightarrow> uint8 \<times> uint8 \<times> uint8"
  alpha :: "(nat \<Rightarrow> nat \<Rightarrow> uint8) option"

text \<open>Lines 149-153: the alpha of the pixel, 255 when the pixel has three channels.\<close>

definition opacity :: "image \<Rightarrow> nat \<Rightarrow> nat \<Rightarrow> uint8" where
  "opacity img row col = (case alpha img of Some a \<Rightarrow> a row col | None \<Rightarrow> 255)"

text \<open>The order in which the two loops of lines 146-147 visit the coordinates.\<close>

definition grid :: "nat \<Rightarrow> nat \<Rightarrow> (nat \<times> nat) list" where
  "grid h w = concat (map (\<lambda>row. map (\<lambda>col. (row, col)) [0..<w]) [0..<h])"

type_synonym feature = "real list"

text \<open>The body of the loops, lines 148-175, for a pixel that passes the test of line 155.\<close>

definition pixel_color :: "image \<Rightarrow> nat \<times> nat \<Rightarrow> color" where
  "pixel_color img rc =
     (case bgr img (fst rc) (snd rc) of (b, g, r) \<Rightarrow>
        (real (unat r) / 255, real (unat g) / 255, real (unat b) / 255))"

definition pixel_feature :: "cvt \<Rightarrow> image \<Rightarrow> nat \<times> nat \<Rightarrow> feature" where
  "pixel_feature cv img rc =
     (case bgr img (fst rc) (snd rc) of (b, g, r) \<Rightarrow>
        (case bgr2hsv cv (b, g, r) of (h, s, v) \<Rightarrow>
           (case bgr2ycrcb cv (b, g, r) of (y, cr, cb) \<Rightarrow>
              [real (unat r) / 255, real (unat g) / 255, real (unat b) / 255,
               real (unat h) / 179, real (unat s) / 255, real (unat v) / 255,
               real (unat y) / 255, real (unat cr) / 255, real (unat cb) / 255])))"

definition valid_pixel_coords :: "image \<Rightarrow> (nat \<times> nat) list" where
  "valid_pixel_coords img =
     filter (\<lambda>rc. opacity img (fst rc) (snd rc) > 127) (grid (height img) (width img))"

text \<open>Lines 190-197: the indices of the valid pixels that lie in the centre patch.\<close>

definition in_patch :: "nat \<Rightarrow> nat \<Rightarrow> nat \<times> nat \<Rightarrow> bool" where
  "in_patch w h rc \<longleftrightarrow>
     (let center_x = int w div 2; center_y = int h div 2;
          patch_size = min (int w) (int h) div 4
      in \<bar>int (snd rc) - center_x\<bar> < patch_size \<and> \<bar>int (fst rc) - center_y\<bar> < patch_size)"

definition center_pixels :: "nat \<Rightarrow> nat \<Rightarrow> (nat \<times> nat) list \<Rightarrow> nat list" where
  "center_pixels w h coords =
     map fst (filter (\<lambda>irc. in_patch w h (snd irc)) (enumerate 0 coords))"

text \<open>
  Lines 212-217, the loop that fills \<open>output\<close>: it reads \<open>kmeans.labels_[idx]\<close> for every
  valid pixel (IndexError when the label array is too short) and writes the four values
  \<open>[255, 240, 180, 255]\<close> at every pixel outside the chosen cluster, which numpy refuses
  with a ValueError when \<open>output\<close> has three channels. The result is the first exception
  raised, if any.
\<close>

definition paint_output :: "bool \<Rightarrow> nat \<Rightarrow> nat list \<Rightarrow> nat \<Rightarrow> error option" where
  "paint_output has_alpha n labels skin_cluster =
     (case find (\<lambda>idx. idx \<ge> length labels \<or> (labels ! idx \<noteq> skin_cluster \<and> \<not> has_alpha)) [0..<n] of
        None \<Rightarrow> None
      | Some idx \<Rightarrow> Some (if idx \<ge> length labels then IndexError else ValueError))"

text \<open>
  Lines 223-236. The median of an empty array is nan, on which \<open>int\<close> raises ValueError.
\<close>

definition skin_tone_rgb :: "color list \<Rightarrow> error + int \<times> int \<times> int" where
  "skin_tone_rgb skin_pixels =
     (if length skin_pixels = 0 then Inl NoSkinPixelsError
      else
        let bright_threshold = axis0 (np_percentile 95) skin_pixels;
            bright_mask = map (\<lambda>p. mean3 p > mean3 bright_threshold * 0.7) skin_pixels
        in case np_mask skin_pixels bright_mask of
             Inl e \<Rightarrow> Inl e
           | Inr filtered \<Rightarrow>
               let skin_pixels_filtered = (if length filtered = 0 then skin_pixels else filtered)
               in if skin_pixels_filtered = [] then Inl ValueError
                  else Inr (rgb_of (axis0 np_median skin_pixels_filtered)))"

text \<open>
  Lines 131-138: the bilateral filter runs on the colour channels and the alpha channel,
  when there is one, is put back unchanged. \<open>bilateral\<close> is the library call
  \<open>cv2.bilateralFilter(_, 9, 75, 75)\<close>; it keeps the shape of the array.
\<close>

definition apply_filter ::
  "(nat \<Rightarrow> nat \<Rightarrow> (nat \<Rightarrow> nat \<Rightarrow> uint8 \<times> uint8 \<times> uint8) \<Rightarrow> nat \<Rightarrow> nat \<Rightarrow> uint8 \<times> uint8 \<times> uint8) \<Rightarrow>
   image \<Rightarrow> image" where
  "apply_filter bilateral img = img\<lparr>bgr := bilateral (height img) (width img) (bgr img)\<rparr>"

text \<open>The three lists that the loops of lines 146-175 fill, one entry per valid pixel.\<close>

definition extract_pixels :: "image \<Rightarrow> color list" where
  "extract_pixels filtered = map (pixel_color filtered) (valid_pixel_coords filtered)"

definition extract_features :: "cvt \<Rightarrow> image \<Rightarrow> feature list" where
  "extract_features cv filtered = map (pixel_feature cv filtered) (valid_pixel_coords filtered)"

text \<open>
  Lines 121-240 and 279. The parameters are the library calls: \<open>cv\<close> the colour
  conversions, \<open>bilateral\<close> the bilateral filter,
  \<open>kmeans\<close> the call \<open>KMeans(n_clusters=5, n_init=10).fit(features).labels_\<close> with \<open>None\<close>
  when the fit raises, and \<open>rgb_to_lab\<close> the L* of \<open>skimage.color.rgb2lab\<close> (lines
  98-102). \<open>read_image\<close> is the result of \<open>cv2.imread\<close>, \<open>None\<close> when the file cannot be
  decoded. The plotting and printing of lines 242-277 is left out.
\<close>

definition display_skin_analysis ::
  "cvt \<Rightarrow> (nat \<Rightarrow> nat \<Rightarrow> (nat \<Rightarrow> nat \<Rightarrow> uint8 \<times> uint8 \<times> uint8) \<Rightarrow> nat \<Rightarrow> nat \<Rightarrow> uint8 \<times> uint8 \<times> uint8) \<Rightarrow>
   (feature list \<Rightarrow> nat list option) \<Rightarrow> (int \<times> int \<times> int \<Rightarrow> real) \<Rightarrow>
   image option \<Rightarrow> error + real \<times> string \<times> (int \<times> int \<times> int)" where
  "display_skin_analysis cv bilateral kmeans rgb_to_lab read_image =
     (case read_image of
        None \<Rightarrow> Inl ImageReadError
      | Some img \<Rightarrow>
          (let filtered = apply_filter bilateral img;
               coords = valid_pixel_coords filtered;
               pixels = extract_pixels filtered;
               features = extract_features cv filtered
           in if pixels = [] then Inl EmptyInputError
              else
                (case kmeans features of
                   None \<Rightarrow> Inl InsufficientDataError
                 | Some labels \<Rightarrow>
                     (let center = center_pixels (width filtered) (height filtered) coords
                      in if center = [] then Inl EmptyCenterPatchError
                         else
                           (case np_take pixels center of
                              Inl e \<Rightarrow> Inl e
                            | Inr center_pixels_colors \<Rightarrow>
                           (case np_take labels center of
                              Inl e \<Rightarrow> Inl e
                            | Inr center_pixels_labels \<Rightarrow>
                           (case get_dominant_non_dark_cluster cv
                                   center_pixels_colors center_pixels_labels 5 of
                              Inl e \<Rightarrow> Inl e
                            | Inr skin_cluster \<Rightarrow>
                           (case paint_output (alpha img \<noteq> None) (length coords)
                                   labels skin_cluster of
                              Some e \<Rightarrow> Inl e
                            | None \<Rightarrow>
                           (case np_mask pixels (map (\<lambda>l. l = skin_cluster) labels) of
                              Inl e \<Rightarrow> Inl e
                            | Inr skin_pixels \<Rightarrow>
                           (case skin_tone_rgb skin_pixels of
                              Inl e \<Rightarrow> Inl e
                            | Inr rgb \<Rightarrow>
                                (let L = rgb_to_lab rgb
                                 in Inr (L, get_lightness_description L, rgb))))))))))))"

subsection \<open>The selector in the words of the specification\<close>




subsection \<open>PixelClusterer\<close>

text \<open>
  Modelled from the spec: PixelClusterer (section 4.3), the fit
  \<open>KMeans(n_clusters=5, n_init=10).fit(features)\<close> that line 186 delegates to sklearn and
  whose code is not in the repository. The specification asks for an iterative
  centroid-refinement clustering into exactly 5 groups, restarted at least 10 times from
  random centroids, that keeps the result of least inertia, returns one label per vector
  and fails with InsufficientDataError when there are fewer than 5 vectors. The random
  draws are the parameter \<open>pick\<close> (restart and centroid number to the index of a vector),
  \<open>max_iter\<close> bounds the refinement steps of one restart and \<open>n_init\<close> may ask for more
  than 10 restarts. \<open>None\<close> is the failure InsufficientDataError.
\<close>

definition sq_dist :: "feature \<Rightarrow> feature \<Rightarrow> real" where
  "sq_dist x c = sum_list (map (\<lambda>ab. (fst ab - snd ab)\<^sup>2) (zip x c))"

text \<open>The index of the least entry, the first one on a tie.\<close>

fun argmin :: "real list \<Rightarrow> nat" where
  "argmin [] = 0"
| "argmin [d] = 0"
| "argmin (d # ds) = (let j = argmin ds in if d \<le> ds ! j then 0 else Suc j)"

definition nearest :: "feature list \<Rightarrow> feature \<Rightarrow> nat" where
  "nearest centroids x = argmin (map (sq_dist x) centroids)"

definition assign_labels :: "feature list \<Rightarrow> feature list \<Rightarrow> nat list" where
  "assign_labels centroids fs = map (nearest centroids) fs"

text \<open>The mean of the members of each group; a group without members keeps its centroid.\<close>

definition refine :: "feature list \<Rightarrow> feature list \<Rightarrow> feature list" where
  "refine fs centroids =
     (let labels = assign_labels centroids fs
      in map (\<lambda>k. let members = map fst (filter (\<lambda>fl. snd fl = k) (zip fs labels))
                  in if members = [] then centroids ! k
                     else map np_mean (transpose members))
           [0..<length centroids])"

fun lloyd :: "nat \<Rightarrow> feature list \<Rightarrow> feature list \<Rightarrow> feature list" where
  "lloyd 0 fs centroids = centroids"
| "lloyd (Suc fuel) fs centroids =
     (let centroids' = refine fs centroids
      in if centroids' = centroids then centroids else lloyd fuel fs centroids')"

definition inertia :: "feature list \<Rightarrow> feature list \<Rightarrow> real" where
  "inertia fs centroids = sum_list (map (\<lambda>x. sq_dist x (centroids ! nearest centroids x)) fs)"

definition initial_centroids :: "(nat \<Rightarrow> nat \<Rightarrow> nat) \<Rightarrow> nat \<Rightarrow> feature list \<Rightarrow> feature list" where
  "initial_centroids pick restart fs = map (\<lambda>j. fs ! (pick restart j mod length fs)) [0..<5]"

definition best_of :: "feature list \<Rightarrow> feature list \<Rightarrow> feature list list \<Rightarrow> feature list" where
  "best_of fs first others =
     fold (\<lambda>cs best. if inertia fs cs < inertia fs best then cs else best) others first"

text \<open>
  Modelled from the spec: the contract of section 4.3, put together from the parts above;
  the k-means fit of sklearn is not in the repository.
\<close>

definition PixelClusterer ::
  "(nat \<Rightarrow> nat \<Rightarrow> nat) \<Rightarrow> nat \<Rightarrow> nat \<Rightarrow> feature list \<Rightarrow> nat list option" where
  "PixelClusterer pick max_iter n_init fs =
     (if length fs < 5 then None
      else
        let run = (\<lambda>restart. lloyd max_iter fs (initial_centroids pick restart fs));
            best = best_of fs (run 0) (map run [1..<max 10 n_init])
        in Some (assign_labels best fs))"

subsection \<open>Sample collaborators\<close>

text \<open>
  The conversions as the documentation of cv2 gives them for 8-bit images, rounded to the
  nearest integer: \<open>V = max\<close>, \<open>S = 255 (V - min) / V\<close>, \<open>H\<close> half the hue angle in
  degrees; \<open>Y = 0.299 R + 0.587 G + 0.114 B\<close>, \<open>Cr = 0.713 (R - Y) + 128\<close>,
  \<open>Cb = 0.564 (B - Y) + 128\<close>. They serve as a concrete instance of the parameter \<open>cv\<close>.
\<close>

definition round_sat :: "real \<Rightarrow> uint8" where
  "round_sat x = word_of_int (max 0 (min 255 \<lfloor>x + 1 / 2\<rfloor>))"

definition doc_hsv :: "uint8 \<times> uint8 \<times> uint8 \<Rightarrow> uint8 \<times> uint8 \<times> uint8" where
  "doc_hsv p =
     (case p of (bw, gw, rw) \<Rightarrow>
        let r = real (unat rw); g = real (unat gw); b = real (unat bw);
            v = max r (max g b); m = min r (min g b);
            s = (if v = 0 then 0 else 255 * (v - m) / v);
            h = (if v = m then 0
                 else if v = r then 60 * (g - b) / (v - m)
                 else if v = g then 120 + 60 * (b - r) / (v - m)
                 else 240 + 60 * (r - g) / (v - m));
            h = (if h < 0 then h + 360 else h)
        in (round_sat (h / 2), round_sat s, round_sat v))"

definition doc_ycrcb :: "uint8 \<times> uint8 \<times> uint8 \<Rightarrow> uint8 \<times> uint8 \<times> uint8" where
  "doc_ycrcb p =
     (case p of (bw, gw, rw) \<Rightarrow>
        let r = real (unat rw); g = real (unat gw); b = real (unat bw);
            y = 0.299 * r + 0.587 * g + 0.114 * b
        in (round_sat y, round_sat ((r - y) * 0.713 + 128), round_sat ((b - y) * 0.564 + 128)))"

definition cv_doc :: cvt where
  "cv_doc = \<lparr>bgr2hsv = doc_hsv, bgr2ycrcb = doc_ycrcb\<rparr>"

text \<open>
  A filter that leaves every pixel as it is, a k-means fit that puts every vector into
  group 0, and the mean of the channels scaled to 0..100 in place of L*.
\<close>

definition no_filter ::
  "nat \<Rightarrow> nat \<Rightarrow> (nat \<Rightarrow> nat \<Rightarrow> uint8 \<times> uint8 \<times> uint8) \<Rightarrow> nat \<Rightarrow> nat \<Rightarrow> uint8 \<times> uint8 \<times> uint8" where
  "no_filter h w px = px"

definition one_group :: "feature list \<Rightarrow> nat list option" where
  "one_group fs = (if length fs < 5 then None else Some (map (\<lambda>f. 0) fs))"

definition grey_level :: "int \<times> int \<times> int \<Rightarrow> real" where
  "grey_level rgb = (case rgb of (r, g, b) \<Rightarrow> real_of_int (r + g + b) * 100 / 765)"

text \<open>Sample images: a fully transparent pixel, an opaque pixel, and a row of five.\<close>

definition transparent_1x1 :: image where
  "transparent_1x1 =
     \<lparr>height = 1, width = 1, bgr = (\<lambda>row col. (120, 150, 200)), alpha = Some (\<lambda>row col. 0)\<rparr>"

definition opaque_1x1 :: image where
  "opaque_1x1 =
     \<lparr>height = 1, width = 1, bgr = (\<lambda>row col. (120, 150, 200)), alpha = None\<rparr>"

definition opaque_1x5 :: image where
  "opaque_1x5 =
     \<lparr>height = 1, width = 5, bgr = (\<lambda>row col. (120, 150, 200)), alpha = None\<rparr>"

text \<open>
  Sample colours, normalised: the light skin tone (200, 150, 120), the same with red and
  blue exchanged, and white.
\<close>

definition skin_px :: color where
  "skin_px = (200 / 255, 150 / 255, 120 / 255)"


definition white_px :: color where
  "white_px = (1, 1, 1)"

text \<open>Sample random draws for PixelClusterer, and five feature vectors.\<close>

definition sample_pick :: "nat \<Rightarrow> nat \<Rightarrow> nat" where
  "sample_pick restart j = restart + j"


text \<open>
  The entry that the loop of lines 59-84 appends for a cluster \<open>i\<close> that holds the single
  pixel \<open>p\<close> of a restricted set of two pixels.
\<close>

definition single_entry :: "cvt \<Rightarrow> nat \<Rightarrow> color \<Rightarrow> cluster" where
  "single_entry cv i p =
     \<lparr>c_id = i,
      c_score = (if median_is_skin cv p then (0.4 * mean3 p + 0.45) * 1.5 else 0.4 * mean3 p + 0.45),
      c_brightness = mean3 p, c_size = 1, c_median = p\<rparr>"

text \<open>A colour with every channel in the unit interval, as the rows of \<open>pixels\<close> are.\<close>

definition normalised :: "color \<Rightarrow> bool" where
  "normalised c \<longleftrightarrow> (case c of (r, g, b) \<Rightarrow> 0 \<le> r \<and> r \<le> 1 \<and> 0 \<le> g \<and> g \<le> 1 \<and> 0 \<le> b \<and> b \<le> 1)"

section \<open>Properties\<close>






text \<open>
  C5. The seven categories have inclusive lower bounds 85, 70, 55, 40, 25 and 10: each
  category is returned on exactly its band, the bands cover every value without overlap,
  and each boundary value belongs to the higher band.
\<close>

theorem C5_lightness_bands:
  "(get_lightness_description L = ''Very Light'' \<longleftrightarrow> 85 \<le> L) \<and>
   (get_lightness_description L = ''Light'' \<longleftrightarrow> 70 \<le> L \<and> L < 85) \<and>
   (get_lightness_description L = ''Medium Light'' \<longleftrightarrow> 55 \<le> L \<and> L < 70) \<and>
   (get_lightness_description L = ''Medium'' \<longleftrightarrow> 40 \<le> L \<and> L < 55) \<and>
   (get_lightness_description L = ''Medium Dark'' \<longleftrightarrow> 25 \<le> L \<and> L < 40) \<and>
   (get_lightness_description L = ''Dark'' \<longleftrightarrow> 10 \<le> L \<and> L < 25) \<and>
   (get_lightness_description L = ''Very Dark'' \<longleftrightarrow> L < 10) \<and>
   get_lightness_description 85 = ''Very Light'' \<and>
   get_lightness_description 70 = ''Light'' \<and>
   get_lightness_description 55 = ''Medium Light'' \<and>
   get_lightness_description 40 = ''Medium'' \<and>
   get_lightness_description 25 = ''Medium Dark'' \<and>
   get_lightness_description 10 = ''Dark'' \<and>
   get_lightness_description L \<in>
     {''Very Light'', ''Light'', ''Medium Light'', ''Medium'', ''Medium Dark'', ''Dark'',
      ''Very Dark''}"
  by (simp add: get_lightness_description_def)

subsection \<open>The cluster list\<close>

lemma cluster_entry_SomeD:
  assumes "cluster_entry cv pixels labels i = Some c"
  shows "c_id c = i" "cluster_pixels pixels labels i \<noteq> []"
    "c_size c = length (cluster_pixels pixels labels i)"
  using assms by (auto simp: cluster_entry_def Let_def split: if_splits)


lemma cluster_pixels_nonempty_iff:
  assumes "length labels = length pixels"
  shows "cluster_pixels pixels labels i \<noteq> [] \<longleftrightarrow> i \<in> set labels"
proof -
  have "cluster_pixels pixels labels i \<noteq> [] \<longleftrightarrow> (\<exists>pl\<in>set (zip pixels labels). snd pl = i)"
    by (auto simp: cluster_pixels_def filter_empty_conv)
  also have "\<dots> \<longleftrightarrow> i \<in> snd ` set (zip pixels labels)"
    by auto
  also have "snd ` set (zip pixels labels) = set labels"
    using assms by (metis map_snd_zip set_map)
  finally show ?thesis .
qed

lemma build_clusters_iff:
  "c \<in> set (build_clusters cv pixels labels n) \<longleftrightarrow>
     (\<exists>i<n. cluster_entry cv pixels labels i = Some c)"
  by (force simp: build_clusters_def map_filter_def image_iff)




lemma set_sort_clusters: "set (sort_clusters cs) = set cs"
  by (simp add: sort_clusters_def)



subsection \<open>Order of consideration\<close>




lemma head_first_in_order:
  assumes "sorted_wrt R (c # rest)" "c' \<in> set (c # rest)"
  shows "c' = c \<or> R c c'"
  using assms by auto

lemma selector_result_cases:
  assumes "get_dominant_non_dark_cluster cv pixels labels n = Inr k"
  obtains c where "c \<in> set (build_clusters cv pixels labels n)" "c_id c = k"
    "length labels = length pixels"
proof -
  let ?cs = "sort_clusters (build_clusters cv pixels labels n)"
  from assms have len: "length labels = length pixels"
    by (auto simp: get_dominant_non_dark_cluster_def split: if_splits)
  show thesis
  proof (cases "find (meets_criteria cv (length pixels)) ?cs")
    case (Some c)
    then have "c \<in> set ?cs"
      by (auto simp: find_Some_iff)
    moreover from assms Some len have "c_id c = k"
      by (simp add: get_dominant_non_dark_cluster_def)
    ultimately show thesis
      using that len by (simp add: set_sort_clusters)
  next
    case None
    with assms len obtain c rest where cs: "?cs = c # rest" and k: "c_id c = k"
      by (auto simp: get_dominant_non_dark_cluster_def split: list.splits)
    from cs have "c \<in> set ?cs" by simp
    then have "c \<in> set (build_clusters cv pixels labels n)"
      by (simp add: set_sort_clusters)
    with k len show thesis
      using that by blast
  qed
qed

lemma selector_result_in_labels:
  assumes "get_dominant_non_dark_cluster cv pixels labels n = Inr k"
  shows "k \<in> set labels" "k < n"
proof -
  from assms obtain c where c: "c \<in> set (build_clusters cv pixels labels n)" "c_id c = k"
    and len: "length labels = length pixels"
    by (rule selector_result_cases)
  from c(1) obtain i where i: "i < n" "cluster_entry cv pixels labels i = Some c"
    by (auto simp: build_clusters_iff)
  with c(2) have "i = k" "cluster_pixels pixels labels i \<noteq> []"
    using cluster_entry_SomeD by auto
  then show "k \<in> set labels" "k < n"
    using i(1) cluster_pixels_nonempty_iff[OF len] by auto
qed

subsection \<open>The selector against the specification\<close>








subsection \<open>Valid pixels and the centre patch\<close>


lemma valid_pixel_coords_filter [simp]:
  "valid_pixel_coords (apply_filter bilateral img) = valid_pixel_coords img"
  by (simp add: valid_pixel_coords_def apply_filter_def opacity_def)




lemma length_extract [simp]:
  "length (extract_pixels img) = length (valid_pixel_coords img)"
  "length (extract_features cv img) = length (valid_pixel_coords img)"
  by (simp_all add: extract_pixels_def extract_features_def)

lemma extract_pixels_Nil_iff [simp]: "extract_pixels img = [] \<longleftrightarrow> valid_pixel_coords img = []"
  by (simp add: extract_pixels_def)

lemma display_empty_input:
  assumes "valid_pixel_coords img = []"
  shows "display_skin_analysis cv bilateral kmeans rgb_to_lab (Some img) = Inl EmptyInputError"
  using assms by (simp add: display_skin_analysis_def Let_def)


lemma center_pixels_coords:
  "map (nth coords) (center_pixels w h coords) = filter (in_patch w h) coords"
proof -
  have "map (nth (pre @ coords)) (map fst (filter (\<lambda>irc. in_patch w h (snd irc))
          (enumerate (length pre) coords))) = filter (in_patch w h) coords" for pre
  proof (induction coords arbitrary: pre)
    case Nil
    show ?case by simp
  next
    case (Cons rc coords)
    from Cons[of "pre @ [rc]"] show ?case
      by simp
  qed
  from this[of "[]"] show ?thesis
    by (simp add: center_pixels_def)
qed

lemma set_center_pixels:
  "set (center_pixels w h coords) = {i. i < length coords \<and> in_patch w h (coords ! i)}"
  by (auto simp: center_pixels_def in_set_enumerate_eq image_iff)

lemma center_pixels_Nil_iff:
  "center_pixels w h coords = [] \<longleftrightarrow> (\<forall>rc\<in>set coords. \<not> in_patch w h rc)"
proof -
  have "center_pixels w h coords = [] \<longleftrightarrow> map (nth coords) (center_pixels w h coords) = []"
    by simp
  also have "\<dots> \<longleftrightarrow> (\<forall>rc\<in>set coords. \<not> in_patch w h rc)"
    unfolding center_pixels_coords by (simp add: filter_empty_conv)
  finally show ?thesis .
qed

lemma in_patch_spec:
  "in_patch w h rc \<longleftrightarrow>
     \<bar>int (snd rc) - int (w div 2)\<bar> < int (min w h div 4) \<and>
     \<bar>int (fst rc) - int (h div 2)\<bar> < int (min w h div 4)"
  by (simp add: in_patch_def Let_def zdiv_int min_def)

lemma display_empty_patch:
  assumes "valid_pixel_coords img \<noteq> []"
    and "kmeans (extract_features cv (apply_filter bilateral img)) \<noteq> None"
    and "\<forall>rc\<in>set (valid_pixel_coords img). \<not> in_patch (width img) (height img) rc"
  shows "display_skin_analysis cv bilateral kmeans rgb_to_lab (Some img) = Inl EmptyCenterPatchError"
proof -
  from assms(2) obtain labels where
    "kmeans (extract_features cv (apply_filter bilateral img)) = Some labels"
    by auto
  moreover from assms(3)
  have "center_pixels (width img) (height img) (valid_pixel_coords img) = []"
    by (simp add: center_pixels_Nil_iff)
  moreover have "width (apply_filter bilateral img) = width img"
    "height (apply_filter bilateral img) = height img"
    by (simp_all add: apply_filter_def)
  ultimately show ?thesis
    using assms(1) by (simp add: display_skin_analysis_def Let_def)
qed

text \<open>
  C7, as amended. The centre patch is the list of the valid pixels whose coordinates
  satisfy \<open>|col - width//2| < min(width, height)//4\<close> and
  \<open>|row - height//2| < min(width, height)//4\<close>. When the image has a valid pixel, the
  clustering stage succeeds and no valid pixel lies in the patch, the pipeline fails with
  EmptyCenterPatchError.
\<close>

theorem C7_center_patch:
  "map (nth coords) (center_pixels w h coords) =
     filter (\<lambda>rc. \<bar>int (snd rc) - int (w div 2)\<bar> < int (min w h div 4) \<and>
                  \<bar>int (fst rc) - int (h div 2)\<bar> < int (min w h div 4)) coords \<and>
   (valid_pixel_coords img \<noteq> [] \<and>
    kmeans (extract_features cv (apply_filter bilateral img)) \<noteq> None \<and>
    (\<forall>rc\<in>set (valid_pixel_coords img).
        \<not> (\<bar>int (snd rc) - int (width img div 2)\<bar> < int (min (width img) (height img) div 4) \<and>
           \<bar>int (fst rc) - int (height img div 2)\<bar> < int (min (width img) (height img) div 4)))
    \<longrightarrow> display_skin_analysis cv bilateral kmeans rgb_to_lab (Some img)
          = Inl EmptyCenterPatchError)"
proof (intro conjI impI)
  show "map (nth coords) (center_pixels w h coords) =
     filter (\<lambda>rc. \<bar>int (snd rc) - int (w div 2)\<bar> < int (min w h div 4) \<and>
                  \<bar>int (fst rc) - int (h div 2)\<bar> < int (min w h div 4)) coords"
    unfolding center_pixels_coords by (rule filter_cong) (simp_all add: in_patch_spec)
next
  assume "valid_pixel_coords img \<noteq> [] \<and>
    kmeans (extract_features cv (apply_filter bilateral img)) \<noteq> None \<and>
    (\<forall>rc\<in>set (valid_pixel_coords img).
        \<not> (\<bar>int (snd rc) - int (width img div 2)\<bar> < int (min (width img) (height img) div 4) \<and>
           \<bar>int (fst rc) - int (height img div 2)\<bar> < int (min (width img) (height img) div 4)))"
  then show "display_skin_analysis cv bilateral kmeans rgb_to_lab (Some img)
          = Inl EmptyCenterPatchError"
    using display_empty_patch[of img kmeans cv bilateral rgb_to_lab]
    by (simp add: in_patch_spec)
qed

subsection \<open>The pipeline after the selection\<close>

lemma np_take_Inr:
  assumes "np_take xs idxs = Inr ys"
  shows "ys = map (nth xs) idxs" "\<forall>i\<in>set idxs. i < length xs" "set ys \<subseteq> set xs"
proof -
  from assms show 1: "ys = map (nth xs) idxs" and 2: "\<forall>i\<in>set idxs. i < length xs"
    by (auto simp: np_take_def list_all_iff split: if_splits)
  from 1 2 show "set ys \<subseteq> set xs"
    by auto
qed

lemma np_take_Inl: "np_take xs idxs = Inl e \<Longrightarrow> e = IndexError"
  by (auto simp: np_take_def split: if_splits)

lemma np_mask_Inr:
  assumes "np_mask xs msk = Inr ys"
  shows "length msk = length xs" "ys = map fst (filter snd (zip xs msk))"
  using assms by (auto simp: np_mask_def split: if_splits)

lemma np_mask_Inl: "np_mask xs msk = Inl e \<Longrightarrow> e = IndexError"
  by (auto simp: np_mask_def split: if_splits)

lemma np_mask_map: "np_mask xs (map P xs) = Inr (filter P xs)"
proof -
  have "map fst (filter snd (zip xs (map P xs))) = filter P xs"
    by (induction xs) simp_all
  then show ?thesis
    by (simp add: np_mask_def)
qed

lemma mask_label_nonempty:
  assumes "length labels = length pixels" "k \<in> set labels"
  shows "map fst (filter snd (zip pixels (map (\<lambda>l. l = k) labels))) \<noteq> []"
proof -
  from assms(2) obtain i where i: "i < length labels" "labels ! i = k"
    by (auto simp: in_set_conv_nth)
  with assms(1) have "(pixels ! i, True) \<in> set (zip pixels (map (\<lambda>l. l = k) labels))"
    by (auto simp: in_set_zip)
  then have "\<exists>x\<in>set (zip pixels (map (\<lambda>l. l = k) labels)). snd x"
    by force
  then show ?thesis
    by (simp add: filter_empty_conv)
qed

lemma selector_Inl: "get_dominant_non_dark_cluster cv pixels labels n = Inl e \<Longrightarrow> e = IndexError"
  by (auto simp: get_dominant_non_dark_cluster_def Let_def split: if_splits option.splits list.splits)

lemma paint_output_Some:
  "paint_output has_alpha n labels k = Some e \<Longrightarrow> e = IndexError \<or> e = ValueError"
  by (auto simp: paint_output_def split: option.splits if_splits)

lemma skin_tone_rgb_NoSkin:
  "skin_tone_rgb skin_pixels = Inl NoSkinPixelsError \<longleftrightarrow> skin_pixels = []"
proof (cases "skin_pixels = []")
  case True
  then show ?thesis
    by (simp add: skin_tone_rgb_def)
next
  case False
  then have "skin_tone_rgb skin_pixels \<noteq> Inl NoSkinPixelsError"
    by (simp add: skin_tone_rgb_def Let_def np_mask_map)
  with False show ?thesis
    by simp
qed

lemma selected_cluster_has_pixels:
  assumes "get_dominant_non_dark_cluster cv cc cl n = Inr k"
    and "np_take labels center = Inr cl"
    and "np_mask pixels (map (\<lambda>l. l = k) labels) = Inr sp"
  shows "sp \<noteq> []"
proof -
  from assms(1) have "k \<in> set cl"
    by (rule selector_result_in_labels)
  with assms(2) have "k \<in> set labels"
    using np_take_Inr(3) by blast
  then show ?thesis
    using np_mask_Inr[OF assms(3)] mask_label_nonempty[of labels pixels k] by simp
qed

lemma display_not_NoSkin:
  "display_skin_analysis cv bilateral kmeans rgb_to_lab read_image \<noteq> Inl NoSkinPixelsError"
proof
  assume "display_skin_analysis cv bilateral kmeans rgb_to_lab read_image = Inl NoSkinPixelsError"
  then show False
    unfolding display_skin_analysis_def Let_def
    by (auto simp: skin_tone_rgb_NoSkin
        split: option.splits sum.splits if_splits
        dest: np_take_Inl np_mask_Inl selector_Inl paint_output_Some
          selected_cluster_has_pixels)
qed

text \<open>
  C9. The pipeline never fails with NoSkinPixelsError: a cluster id returned by the
  selector is one of the labels of the centre patch, these are labels of the whole image,
  and the mask of a label of the image selects at least one pixel (or the mask has the
  wrong length and numpy raises IndexError).
\<close>

theorem C9_no_skin_pixels_unreachable:
  "display_skin_analysis cv bilateral kmeans rgb_to_lab read_image \<noteq> Inl NoSkinPixelsError \<and>
   (get_dominant_non_dark_cluster cv center_colors center_labels n = Inr k \<longrightarrow>
      k \<in> set center_labels) \<and>
   (np_take labels center = Inr center_labels \<longrightarrow> set center_labels \<subseteq> set labels) \<and>
   (k \<in> set labels \<longrightarrow>
      (\<exists>skin_pixels. np_mask pixels (map (\<lambda>l. l = k) labels) = Inr skin_pixels \<and> skin_pixels \<noteq> []) \<or>
      np_mask pixels (map (\<lambda>l. l = k) labels) = Inl IndexError)"
proof (intro conjI impI)
  show "display_skin_analysis cv bilateral kmeans rgb_to_lab read_image \<noteq> Inl NoSkinPixelsError"
    by (rule display_not_NoSkin)
next
  assume "get_dominant_non_dark_cluster cv center_colors center_labels n = Inr k"
  then show "k \<in> set center_labels"
    by (rule selector_result_in_labels)
next
  assume "np_take labels center = Inr center_labels"
  then show "set center_labels \<subseteq> set labels"
    by (rule np_take_Inr)
next
  assume k: "k \<in> set labels"
  show "(\<exists>skin_pixels. np_mask pixels (map (\<lambda>l. l = k) labels) = Inr skin_pixels \<and> skin_pixels \<noteq> []) \<or>
      np_mask pixels (map (\<lambda>l. l = k) labels) = Inl IndexError"
  proof (cases "length labels = length pixels")
    case True
    with k show ?thesis
      using mask_label_nonempty[of labels pixels k] by (simp add: np_mask_def)
  next
    case False
    then show ?thesis
      by (simp add: np_mask_def)
  qed
qed

subsection \<open>Summarizer and clusterer\<close>







lemma uint8_unit_interval:
  fixes w :: uint8
  shows "0 \<le> real (unat w) / 255 \<and> real (unat w) / 255 \<le> 1"
proof -
  have "unat w < 2 ^ 8"
    using unsigned_less[of w, where 'a = nat] by simp
  then have "unat w \<le> 255"
    by simp
  then have "real (unat w) \<le> real 255"
    by (rule of_nat_mono)
  moreover have "0 \<le> real (unat w)"
    by (rule of_nat_0_le_iff)
  ultimately show ?thesis
    by simp
qed

lemma pixel_color_normalised: "normalised (pixel_color img rc)"
proof -
  obtain b g r where "bgr img (fst rc) (snd rc) = (b, g, r)"
    by (cases "bgr img (fst rc) (snd rc)") auto
  then have "pixel_color img rc = (real (unat r) / 255, real (unat g) / 255, real (unat b) / 255)"
    by (simp add: pixel_color_def)
  then show ?thesis
    using uint8_unit_interval[of r] uint8_unit_interval[of g] uint8_unit_interval[of b]
    by (simp add: normalised_def)
qed






lemma length_refine [simp]: "length (refine fs centroids) = length centroids"
  by (simp add: refine_def Let_def)

lemma length_lloyd [simp]: "length (lloyd fuel fs centroids) = length centroids"
  by (induction fuel fs centroids rule: lloyd.induct) (simp_all add: Let_def)

lemma length_initial_centroids [simp]: "length (initial_centroids pick restart fs) = 5"
  by (simp add: initial_centroids_def)




lemma display_insufficient:
  assumes "1 \<le> length (valid_pixel_coords img)" "length (valid_pixel_coords img) < 5"
  shows "display_skin_analysis cv bilateral (PixelClusterer pick max_iter n_init) rgb_to_lab (Some img)
           = Inl InsufficientDataError"
proof -
  from assms(1) have "valid_pixel_coords img \<noteq> []"
    by auto
  moreover from assms(2)
  have "PixelClusterer pick max_iter n_init (extract_features cv (apply_filter bilateral img)) = None"
    by (simp add: PixelClusterer_def)
  ultimately show ?thesis
    by (simp add: display_skin_analysis_def Let_def)
qed


section \<open>The samples\<close>

subsection \<open>Evaluation\<close>

lemma upt5: "[0..<5] = [0, 1, 2, 3, 4]"
  by (simp add: upt_conv_Cons)

lemma median_single: "axis0 np_median [p] = p"
  by (cases p) (simp add: axis0_def np_median_def)

lemma var_single: "axis0 np_var [p] = (0, 0, 0)"
  by (simp add: axis0_def np_var_def np_mean_def)


lemma doc_hsv_blue: "doc_hsv (200, 150, 120) = (109, 102, 200)"
  unfolding doc_hsv_def
  apply (simp add: Let_def)
  apply (simp add: round_sat_def)
  done

lemma doc_hsv_white: "doc_hsv (255, 255, 255) = (0, 0, 255)"
  unfolding doc_hsv_def
  apply (simp add: Let_def)
  apply (simp add: round_sat_def)
  done

lemma skin_color_accepted: "is_likely_skin_color cv 200 150 120"
  by (simp add: is_likely_skin_color_def Let_def)

lemma blue_color_rejected: "\<not> is_likely_skin_color cv_doc 120 150 200"
  by (simp add: is_likely_skin_color_def Let_def cv_doc_def doc_hsv_blue)

lemma white_color_rejected: "\<not> is_likely_skin_color cv_doc 255 255 255"
  by (simp add: is_likely_skin_color_def Let_def cv_doc_def doc_hsv_white)

lemma rgb_of_skin_px: "rgb_of skin_px = (200, 150, 120)"
  by (simp add: rgb_of_def py_int_def skin_px_def)


lemma rgb_of_white_px: "rgb_of white_px = (255, 255, 255)"
  by (simp add: rgb_of_def py_int_def white_px_def)

lemma skin_px_not_flagged: "\<not> median_is_skin cv_doc skin_px"
  by (simp add: median_is_skin_def rgb_of_skin_px blue_color_rejected)


lemma white_px_not_flagged: "\<not> median_is_skin cv_doc white_px"
  by (simp add: median_is_skin_def rgb_of_white_px white_color_rejected)

lemma cluster_pixels_pair:
  "cluster_pixels [p, q] [0, 1] 0 = [p]"
  "cluster_pixels [p, q] [0, 1] 1 = [q]"
  "1 < i \<Longrightarrow> cluster_pixels [p, q] [0, 1] i = []"
  by (simp_all add: cluster_pixels_def)

lemma cluster_entry_pair:
  "cluster_entry cv [p, q] [0, 1] 0 = Some (single_entry cv 0 p)"
  "cluster_entry cv [p, q] [0, 1] 1 = Some (single_entry cv 1 q)"
  "1 < i \<Longrightarrow> cluster_entry cv [p, q] [0, 1] i = None"
  unfolding cluster_entry_def cluster_pixels_pair Let_def median_single var_single single_entry_def
  by (simp_all add: mean3_def cluster_pixels_pair)

lemma build_clusters_pair:
  "build_clusters cv [p, q] [0, 1] 5 = [single_entry cv 0 p, single_entry cv 1 q]"
  unfolding build_clusters_def upt5
  using cluster_entry_pair(1)[of cv p q] cluster_entry_pair(2)[of cv p q]
    cluster_entry_pair(3)[of 2 cv p q] cluster_entry_pair(3)[of 3 cv p q]
    cluster_entry_pair(3)[of 4 cv p q]
  by (simp add: map_filter_simps)

lemma selector_skin_white:
  "get_dominant_non_dark_cluster cv_doc [skin_px, white_px] [0, 1] 5 = Inr 1"
proof -
  have "sort_clusters [single_entry cv_doc 0 skin_px, single_entry cv_doc 1 white_px] =
          [single_entry cv_doc 1 white_px, single_entry cv_doc 0 skin_px]"
    using skin_px_not_flagged white_px_not_flagged
    by (simp add: sort_clusters_def single_entry_def mean3_def skin_px_def white_px_def)
  then show ?thesis
    unfolding get_dominant_non_dark_cluster_def Let_def build_clusters_pair
    using skin_px_not_flagged white_px_not_flagged
    by (simp add: meets_criteria_def single_entry_def)
qed


lemma valid_opaque_1x1: "valid_pixel_coords opaque_1x1 = [(0, 0)]"
  by (simp add: valid_pixel_coords_def grid_def opacity_def opaque_1x1_def)

lemma valid_transparent_1x1: "valid_pixel_coords transparent_1x1 = []"
  by (simp add: valid_pixel_coords_def grid_def opacity_def transparent_1x1_def)

lemma valid_opaque_1x5: "valid_pixel_coords opaque_1x5 = [(0, 0), (0, 1), (0, 2), (0, 3), (0, 4)]"
  by (simp add: valid_pixel_coords_def grid_def opacity_def opaque_1x5_def upt5)

subsection \<open>The channel order of the skin test\<close>

text \<open>
  C1. The skin test of the selector hands the un-normalised median colour to
  \<open>is_likely_skin_color\<close> with red and blue exchanged: the callee's \<open>r\<close> is the blue
  channel of the median. On the light skin tone (200, 150, 120), which the classifier
  accepts, the test of the selector is negative, and with one such pixel and one white
  pixel in the restricted set the selector falls back to the white cluster 1.
\<close>

theorem C1_median_channels_reversed:
  "median_is_skin cv (r, g, b) =
     is_likely_skin_color cv (py_int (b * 255)) (py_int (g * 255)) (py_int (r * 255)) \<and>
   rgb_of skin_px = (200, 150, 120) \<and>
   is_likely_skin_color cv_doc 200 150 120 \<and>
   \<not> median_is_skin cv_doc skin_px \<and>
   get_dominant_non_dark_cluster cv_doc [skin_px, white_px] [0, 1] 5 = Inr 1"
  using rgb_of_skin_px skin_color_accepted skin_px_not_flagged selector_skin_white
  by (simp add: median_is_skin_def rgb_of_def)

subsection \<open>Instances of the theorems\<close>








text \<open>C7, as amended, at a row of five opaque pixels, whose patch has half-width 0.\<close>

theorem C7_center_patch_witness:
  "display_skin_analysis cv_doc no_filter one_group grey_level (Some opaque_1x5)
     = Inl EmptyCenterPatchError"
proof -
  have "valid_pixel_coords opaque_1x5 \<noteq> []"
    by (simp add: valid_opaque_1x5)
  moreover have "one_group (extract_features cv_doc (apply_filter no_filter opaque_1x5)) \<noteq> None"
    by (simp add: one_group_def valid_opaque_1x5)
  moreover have "\<forall>rc\<in>set (valid_pixel_coords opaque_1x5).
        \<not> (\<bar>int (snd rc) - int (width opaque_1x5 div 2)\<bar>
              < int (min (width opaque_1x5) (height opaque_1x5) div 4) \<and>
           \<bar>int (fst rc) - int (height opaque_1x5 div 2)\<bar>
              < int (min (width opaque_1x5) (height opaque_1x5) div 4))"
    by (simp add: opaque_1x5_def)
  ultimately show ?thesis
    using C7_center_patch[of _ _ _ opaque_1x5 one_group cv_doc no_filter grey_level]
    by blast
qed

text \<open>
  C7 as stated fails on a fully transparent image: no valid pixel lies in the patch, and
  the pipeline fails with EmptyInputError. It fails as well on an image of one opaque
  pixel, whose patch is empty: the clustering stage fails first.
\<close>

theorem C7_center_patch_counterexample:
  "filter (in_patch (width transparent_1x1) (height transparent_1x1))
     (valid_pixel_coords transparent_1x1) = [] \<and>
   display_skin_analysis cv_doc no_filter one_group grey_level (Some transparent_1x1)
     = Inl EmptyInputError \<and>
   display_skin_analysis cv_doc no_filter one_group grey_level (Some transparent_1x1)
     \<noteq> Inl EmptyCenterPatchError \<and>
   filter (in_patch (width opaque_1x1) (height opaque_1x1))
     (valid_pixel_coords opaque_1x1) = [] \<and>
   display_skin_analysis cv_doc no_filter (PixelClusterer sample_pick 300 10) grey_level
     (Some opaque_1x1) = Inl InsufficientDataError"
proof -
  have "\<not> in_patch (width opaque_1x1) (height opaque_1x1) (0, 0)"
    by (simp add: in_patch_def opaque_1x1_def)
  moreover have "display_skin_analysis cv_doc no_filter (PixelClusterer sample_pick 300 10)
      grey_level (Some opaque_1x1) = Inl InsufficientDataError"
    by (rule display_insufficient) (simp_all add: valid_opaque_1x1)
  ultimately show ?thesis
    by (simp add: valid_transparent_1x1 valid_opaque_1x1 display_empty_input)
qed


text \<open>C9 at a centre patch of two pixels that is the whole image.\<close>

theorem C9_no_skin_pixels_unreachable_witness:
  "get_dominant_non_dark_cluster cv_doc [skin_px, white_px] [0, 1] 5 = Inr 1 \<and>
   np_take [0, 1 :: nat] [0, 1] = Inr [0, 1] \<and>
   np_mask [skin_px, white_px] (map (\<lambda>l. l = 1) [0, 1 :: nat]) = Inr [white_px] \<and>
   display_skin_analysis cv_doc no_filter one_group grey_level (Some opaque_1x5)
     \<noteq> Inl NoSkinPixelsError"
proof -
  have take: "np_take [0, 1 :: nat] [0, 1] = Inr [0, 1]"
    by (simp add: np_take_def)
  have msk: "np_mask [skin_px, white_px] (map (\<lambda>l. l = 1) [0, 1 :: nat]) = Inr [white_px]"
    by (simp add: np_mask_def)
  from C9_no_skin_pixels_unreachable[of cv_doc no_filter one_group grey_level "Some opaque_1x5"
      "[skin_px, white_px]" "[0, 1]" 5 1 "[0, 1]" "[0, 1]" "[skin_px, white_px]"]
    selector_skin_white take msk
  show ?thesis
    by simp
qed


end
